theory Spec2Isabelle
  imports Main "HOL-Library.Sublist" "HOL-Library.Word"
begin

section \<open>The password policy module \<^verbatim>\<open>passwordpolicy.c\<close>\<close>

text \<open>
  The module is a PostgreSQL extension. It registers five integer settings
  (\<^verbatim>\<open>define_variables\<close>), installs \<^verbatim>\<open>check_password\<close> as the server's password hook
  (\<^verbatim>\<open>_PG_init\<close>) and, on every password change, either returns normally or leaves through
  \<^verbatim>\<open>ereport(ERROR, ...)\<close>.

  Conventions of the embedding:
  \<^item> A C string is the list of its bytes before the terminating NUL, so \<^verbatim>\<open>strlen\<close> is
    \<^const>\<open>length\<close>. A byte is a \<^typ>\<open>char\<close> (8 bits), which is what the casts to
    \<^verbatim>\<open>unsigned char\<close> in the classification loop produce.
  \<^item> \<^verbatim>\<open>ereport(ERROR, ...)\<close> does not return to its caller: PostgreSQL unwinds to the
    enclosing error handler. Every such call is therefore an \<^term>\<open>Inl\<close> result that ends the
    function; falling off the end of the function is \<^term>\<open>Inr ()\<close>.
  \<^item> The five thresholds are C globals; the model passes them as a record.
  \<^item> The counters and \<^verbatim>\<open>pwdlen\<close> are C \<^verbatim>\<open>int\<close>s. A string handled by a PostgreSQL backend
    is shorter than \<open>2^30\<close> bytes (the allocator's limit), so converting \<^verbatim>\<open>strlen\<close>'s result
    to \<^verbatim>\<open>int\<close> and counting up to it is exact, and those values are modelled as \<^typ>\<open>int\<close>.
    The sum of the four thresholds in \<^verbatim>\<open>define_variables\<close> can exceed \<^verbatim>\<open>INT_MAX\<close>, since
    each setting may be as large as \<^verbatim>\<open>INT_MAX\<close>; there the 32-bit wrap-around is written out
    (PostgreSQL and its extensions are compiled with \<^verbatim>\<open>-fwrapv\<close>).
\<close>

subsection \<open>Character classes of \<^verbatim>\<open><ctype.h>\<close>\<close>

text \<open>
  \<^verbatim>\<open>isalpha\<close>, \<^verbatim>\<open>isupper\<close>, \<^verbatim>\<open>islower\<close> and \<^verbatim>\<open>isdigit\<close> belong to the C library and depend
  on the locale of the process. The module is parameterised by them; \<open>C_locale\<close> is the
  table of the "C" locale, used for the concrete scenarios.
\<close>

record ctype =
  isalpha :: "char \<Rightarrow> bool"
  isupper :: "char \<Rightarrow> bool"
  islower :: "char \<Rightarrow> bool"
  isdigit :: "char \<Rightarrow> bool"

definition in_range :: "nat \<Rightarrow> nat \<Rightarrow> char \<Rightarrow> bool" where
  "in_range lo hi c = (lo \<le> of_char c \<and> of_char c \<le> hi)"

definition C_locale :: ctype where
  "C_locale =
     \<lparr> isalpha = (\<lambda>c. in_range 65 90 c \<or> in_range 97 122 c),
       isupper = in_range 65 90,
       islower = in_range 97 122,
       isdigit = in_range 48 57 \<rparr>"

subsection \<open>Thresholds and errors\<close>

record policy_config =
  passMinLength :: int
  passMinSpcChar :: int
  passMinNumChar :: int
  passMinUpperChar :: int
  passMinLowerChar :: int

text \<open>The static initialisers of the five globals.\<close>

definition default_config :: policy_config where
  "default_config =
     \<lparr> passMinLength = 8, passMinSpcChar = 2, passMinNumChar = 2,
       passMinUpperChar = 2, passMinLowerChar = 2 \<rparr>"

text \<open>
  One constructor for each \<^verbatim>\<open>ereport(ERROR, ...)\<close> of the module, named after the reason
  codes of the specification. The four composition errors carry the threshold that their
  message prints with \<^verbatim>\<open>%d\<close>.
\<close>

datatype ereport =
    TooShort
  | ContainsUsername
  | TooFewDigits int
  | TooFewSpecial int
  | TooFewUppercase int
  | TooFewLowercase int
  | DictionaryGuessable
  | EncryptedPasswordMatchesUsername
  | InconsistentThresholds

type_synonym verdict = "ereport + unit"

abbreviation Accept :: verdict where
  "Accept \<equiv> Inr ()"

abbreviation Reject :: "ereport \<Rightarrow> verdict" where
  "Reject r \<equiv> Inl r"

subsection \<open>\<^verbatim>\<open>check_policy\<close>\<close>

record tally =
  letter_count :: int
  number_count :: int
  spc_char_count :: int
  upper_count :: int
  lower_count :: int

definition tally0 :: tally where
  "tally0 =
     \<lparr> letter_count = 0, number_count = 0, spc_char_count = 0,
       upper_count = 0, lower_count = 0 \<rparr>"

text \<open>The body of the \<^verbatim>\<open>for\<close> loop, for the byte \<^verbatim>\<open>password[i]\<close>.\<close>

definition count_char :: "ctype \<Rightarrow> char \<Rightarrow> tally \<Rightarrow> tally" where
  "count_char ct c t =
     (if isalpha ct c then
        (let t1 = t\<lparr>letter_count := letter_count t + 1\<rparr> in
         if isupper ct c then t1\<lparr>upper_count := upper_count t1 + 1\<rparr>
         else if islower ct c then t1\<lparr>lower_count := lower_count t1 + 1\<rparr>
         else t1)
      else if isdigit ct c then t\<lparr>number_count := number_count t + 1\<rparr>
      else t\<lparr>spc_char_count := spc_char_count t + 1\<rparr>)"

text \<open>The loop \<^verbatim>\<open>for (i = 0; i < pwdlen; i++)\<close>: the bytes from left to right.\<close>

fun count_chars :: "ctype \<Rightarrow> string \<Rightarrow> tally \<Rightarrow> tally" where
  "count_chars ct [] t = t"
| "count_chars ct (c # cs) t = count_chars ct cs (count_char ct c t)"

definition check_policy :: "ctype \<Rightarrow> policy_config \<Rightarrow> string \<Rightarrow> verdict" where
  "check_policy ct cfg password =
     (let t = count_chars ct password tally0 in
      if number_count t < passMinNumChar cfg then Reject (TooFewDigits (passMinNumChar cfg))
      else if spc_char_count t < passMinSpcChar cfg then Reject (TooFewSpecial (passMinSpcChar cfg))
      else if upper_count t < passMinUpperChar cfg then Reject (TooFewUppercase (passMinUpperChar cfg))
      else if lower_count t < passMinLowerChar cfg then Reject (TooFewLowercase (passMinLowerChar cfg))
      else Accept)"

subsection \<open>\<^verbatim>\<open>check_password\<close>\<close>

text \<open>
  \<^verbatim>\<open>strstr(haystack, needle)\<close> of the C library: a pointer to the first occurrence of
  \<^verbatim>\<open>needle\<close> in \<^verbatim>\<open>haystack\<close>, \<^verbatim>\<open>haystack\<close> itself for an empty needle, \<^verbatim>\<open>NULL\<close> when there
  is none. The model returns the offset of that pointer, \<^term>\<open>None\<close> for \<^verbatim>\<open>NULL\<close>.
\<close>

fun strstr :: "string \<Rightarrow> string \<Rightarrow> nat option" where
  "strstr [] needle = (if needle = [] then Some 0 else None)"
| "strstr (c # cs) needle =
     (if prefix needle (c # cs) then Some 0 else map_option Suc (strstr cs needle))"

datatype PasswordType =
    PASSWORD_TYPE_PLAINTEXT
  | PASSWORD_TYPE_MD5
  | PASSWORD_TYPE_SCRAM_SHA_256

text \<open>
  What the server and the build supply:
  \<^item> the locale's character classes;
  \<^item> \<^verbatim>\<open>plain_crypt_verify(role, shadow_pass, client_pass, &logdetail)\<close>, \<^term>\<open>True\<close> when it
    returns \<^verbatim>\<open>STATUS_OK\<close>;
  \<^item> \<^verbatim>\<open>FascistCheck(password, CRACKLIB_DICTPATH)\<close>, \<^term>\<open>True\<close> when it returns a message
    (the password is weak); \<^term>\<open>None\<close> when the module is built without
    \<^verbatim>\<open>USE_CRACKLIB\<close>.
\<close>

record host =
  locale_ctype :: ctype
  plain_crypt_verify :: "string \<Rightarrow> string \<Rightarrow> string \<Rightarrow> bool"
  FascistCheck :: "(string \<Rightarrow> bool) option"

text \<open>
  The variant for \<^verbatim>\<open>PG_VERSION_NUM >= 100000\<close>. \<^verbatim>\<open>validuntil_time\<close> is a \<^verbatim>\<open>Datum\<close>, a
  machine word.
\<close>

definition check_password ::
  "host \<Rightarrow> policy_config \<Rightarrow> string \<Rightarrow> string \<Rightarrow> PasswordType \<Rightarrow> 64 word \<Rightarrow> bool \<Rightarrow> verdict"
where
  "check_password h cfg username shadow_pass password_type validuntil_time validuntil_null =
     (if password_type \<noteq> PASSWORD_TYPE_PLAINTEXT then
        (if plain_crypt_verify h username shadow_pass username
         then Reject EncryptedPasswordMatchesUsername
         else Accept)
      else
        (let password = shadow_pass;
             pwdlen = int (length password) in
         if pwdlen < passMinLength cfg then Reject TooShort
         else if strstr password username \<noteq> None then Reject ContainsUsername
         else
           (case check_policy (locale_ctype h) cfg password of
              Inl e \<Rightarrow> Inl e
            | Inr _ \<Rightarrow>
                (case FascistCheck h of
                   None \<Rightarrow> Accept
                 | Some cracklib \<Rightarrow>
                     if cracklib password then Reject DictionaryGuessable else Accept))))"

subsection \<open>\<^verbatim>\<open>define_variables\<close> and \<^verbatim>\<open>_PG_init\<close>\<close>

definition INT_MAX :: int where
  "INT_MAX = 2147483647"

text \<open>Addition of two C \<^verbatim>\<open>int\<close>s, wrapping around at 32 bits.\<close>

definition int_add :: "int \<Rightarrow> int \<Rightarrow> int" where
  "int_add a b = (a + b + 2 ^ 31) mod 2 ^ 32 - 2 ^ 31"

text \<open>
  \<^verbatim>\<open>DefineCustomIntVariable(name, ..., valueAddr, bootValue, minValue, maxValue, ...)\<close> of
  the server: the variable receives \<^verbatim>\<open>bootValue\<close>; when the configuration sets the name,
  the configured value is assigned if it lies between \<^verbatim>\<open>minValue\<close> and \<^verbatim>\<open>maxValue\<close>, and
  is refused with a warning otherwise, the variable keeping \<^verbatim>\<open>bootValue\<close>. The result is
  the content of the variable afterwards.
\<close>

definition DefineCustomIntVariable :: "int \<Rightarrow> int \<Rightarrow> int \<Rightarrow> int option \<Rightarrow> int" where
  "DefineCustomIntVariable bootValue minValue maxValue configured =
     (case configured of
        None \<Rightarrow> bootValue
      | Some v \<Rightarrow> if minValue \<le> v \<and> v \<le> maxValue then v else bootValue)"

text \<open>What the configuration says about the five names, \<^term>\<open>None\<close> for a name it leaves out.\<close>

record guc_settings =
  min_password_len :: "int option"
  min_special_chars :: "int option"
  min_numbers :: "int option"
  min_uppercase_letter :: "int option"
  min_lowercase_letter :: "int option"

text \<open>The five registrations, in the order of the source.\<close>

definition registered :: "guc_settings \<Rightarrow> policy_config" where
  "registered gs =
     \<lparr> passMinLength = DefineCustomIntVariable 8 1 INT_MAX (min_password_len gs),
       passMinSpcChar = DefineCustomIntVariable 2 1 INT_MAX (min_special_chars gs),
       passMinNumChar = DefineCustomIntVariable 2 1 INT_MAX (min_numbers gs),
       passMinUpperChar = DefineCustomIntVariable 2 1 INT_MAX (min_uppercase_letter gs),
       passMinLowerChar = DefineCustomIntVariable 2 1 INT_MAX (min_lowercase_letter gs) \<rparr>"

definition define_variables :: "guc_settings \<Rightarrow> ereport + policy_config" where
  "define_variables gs =
     (let cfg = registered gs in
      if passMinLength cfg <
           int_add (int_add (int_add (passMinSpcChar cfg) (passMinNumChar cfg))
                            (passMinUpperChar cfg))
                   (passMinLowerChar cfg)
      then Inl InconsistentThresholds
      else Inr cfg)"

text \<open>
  The module's state in a backend: the \<^verbatim>\<open>inited\<close> flag, whether \<^verbatim>\<open>check_password_hook\<close>
  points to \<^verbatim>\<open>check_password\<close>, and the thresholds.
\<close>

record backend =
  inited :: bool
  hook_installed :: bool
  thresholds :: policy_config

definition fresh_backend :: backend where
  "fresh_backend = \<lparr> inited = False, hook_installed = False, thresholds = default_config \<rparr>"

definition PG_init :: "guc_settings \<Rightarrow> backend \<Rightarrow> ereport + backend" where
  "PG_init gs b =
     (if inited b then Inr b
      else
        (case define_variables gs of
           Inl e \<Rightarrow> Inl e
         | Inr cfg \<Rightarrow> Inr \<lparr> inited = True, hook_installed = True, thresholds = cfg \<rparr>))"

text \<open>A configuration that sets all five names.\<close>

definition settings :: "int \<Rightarrow> int \<Rightarrow> int \<Rightarrow> int \<Rightarrow> int \<Rightarrow> guc_settings" where
  "settings len spc num upper lower =
     \<lparr> min_password_len = Some len, min_special_chars = Some spc, min_numbers = Some num,
       min_uppercase_letter = Some upper, min_lowercase_letter = Some lower \<rparr>"

subsection \<open>The classification in the words of the specification\<close>

text \<open>
  The specification's step 3 puts every character into exactly one bucket: an alphabetic
  character is uppercase, lowercase or neither; any other character is a digit if it is a
  decimal digit and special otherwise. \<open>bucket_of\<close> is that assignment and
  \<open>bucket_count\<close> the number of characters of a password in a bucket. They are not
  taken from the source: the theorems below compare the counters of \<open>check_policy\<close>
  with them.
\<close>

datatype bucket = Digit | Special | Uppercase | Lowercase | Caseless

definition bucket_of :: "ctype \<Rightarrow> char \<Rightarrow> bucket" where
  "bucket_of ct c =
     (if isalpha ct c then
        (if isupper ct c then Uppercase else if islower ct c then Lowercase else Caseless)
      else if isdigit ct c then Digit
      else Special)"

definition bucket_count :: "ctype \<Rightarrow> bucket \<Rightarrow> string \<Rightarrow> int" where
  "bucket_count ct b pw = int (length (filter (\<lambda>c. bucket_of ct c = b) pw))"

subsection \<open>A concrete host for the scenarios\<close>

text \<open>
  The "C" locale, a build without cracklib, and a stand-in for the server's verification
  that accepts a stored password equal to the presented one.
\<close>

definition plain_host :: host where
  "plain_host =
     \<lparr> locale_ctype = C_locale,
       plain_crypt_verify = (\<lambda>role shadow_pass client_pass. shadow_pass = client_pass),
       FascistCheck = None \<rparr>"

section \<open>Auxiliary facts\<close>

lemma bucket_count_Nil [simp]: "bucket_count ct b [] = 0"
  by (simp add: bucket_count_def)

lemma bucket_count_Cons:
  "bucket_count ct b (c # cs) = (if bucket_of ct c = b then 1 else 0) + bucket_count ct b cs"
  by (simp add: bucket_count_def)

lemma strstr_None_iff: "strstr hay needle = None \<longleftrightarrow> \<not> sublist needle hay"
  by (induction hay) (auto simp: sublist_Cons_right)

lemma number_count_chars:
  "number_count (count_chars ct pw t) = number_count t + bucket_count ct Digit pw"
  by (induction pw arbitrary: t)
     (simp_all add: count_char_def bucket_count_Cons bucket_of_def Let_def)

lemma spc_char_count_chars:
  "spc_char_count (count_chars ct pw t) = spc_char_count t + bucket_count ct Special pw"
  by (induction pw arbitrary: t)
     (simp_all add: count_char_def bucket_count_Cons bucket_of_def Let_def)

lemma upper_count_chars:
  "upper_count (count_chars ct pw t) = upper_count t + bucket_count ct Uppercase pw"
  by (induction pw arbitrary: t)
     (simp_all add: count_char_def bucket_count_Cons bucket_of_def Let_def)

lemma lower_count_chars:
  "lower_count (count_chars ct pw t) = lower_count t + bucket_count ct Lowercase pw"
  by (induction pw arbitrary: t)
     (simp_all add: count_char_def bucket_count_Cons bucket_of_def Let_def)

lemma letter_count_chars:
  "letter_count (count_chars ct pw t) =
     letter_count t + bucket_count ct Uppercase pw + bucket_count ct Lowercase pw
       + bucket_count ct Caseless pw"
  by (induction pw arbitrary: t)
     (simp_all add: count_char_def bucket_count_Cons bucket_of_def Let_def)

lemma bucket_count_nonneg: "0 \<le> bucket_count ct b pw"
  by (simp add: bucket_count_def)

lemma bucket_counts_total:
  "bucket_count ct Digit pw + bucket_count ct Special pw + bucket_count ct Uppercase pw
     + bucket_count ct Lowercase pw + bucket_count ct Caseless pw = int (length pw)"
proof (induction pw)
  case Nil
  show ?case by simp
next
  case (Cons c cs)
  then show ?case
    by (cases "bucket_of ct c") (simp_all add: bucket_count_Cons)
qed

lemmas tally_simps = number_count_chars spc_char_count_chars upper_count_chars
  lower_count_chars letter_count_chars

lemma check_policy_buckets:
  "check_policy ct cfg pw =
     (if bucket_count ct Digit pw < passMinNumChar cfg
        then Reject (TooFewDigits (passMinNumChar cfg))
      else if bucket_count ct Special pw < passMinSpcChar cfg
        then Reject (TooFewSpecial (passMinSpcChar cfg))
      else if bucket_count ct Uppercase pw < passMinUpperChar cfg
        then Reject (TooFewUppercase (passMinUpperChar cfg))
      else if bucket_count ct Lowercase pw < passMinLowerChar cfg
        then Reject (TooFewLowercase (passMinLowerChar cfg))
      else Accept)"
  by (simp add: check_policy_def tally_simps tally0_def)

lemma strstr_append: "strstr (ps @ needle @ ss) needle \<noteq> None"
  by (simp add: strstr_None_iff sublist_def del: strstr.simps) blast

lemma int_add_exact:
  "- (2 ^ 31) \<le> a + b \<Longrightarrow> a + b < 2 ^ 31 \<Longrightarrow> int_add a b = a + b"
  by (simp add: int_add_def)

lemma DefineCustomIntVariable_Some:
  "DefineCustomIntVariable bootValue minValue maxValue (Some v) =
     (if minValue \<le> v \<and> v \<le> maxValue then v else bootValue)"
  by (simp add: DefineCustomIntVariable_def)

lemma registered_settings:
  "1 \<le> len \<Longrightarrow> len \<le> INT_MAX \<Longrightarrow> 1 \<le> spc \<Longrightarrow> spc \<le> INT_MAX \<Longrightarrow>
   1 \<le> num \<Longrightarrow> num \<le> INT_MAX \<Longrightarrow> 1 \<le> upper \<Longrightarrow> upper \<le> INT_MAX \<Longrightarrow>
   1 \<le> lower \<Longrightarrow> lower \<le> INT_MAX \<Longrightarrow>
   registered (settings len spc num upper lower) =
     \<lparr> passMinLength = len, passMinSpcChar = spc, passMinNumChar = num,
       passMinUpperChar = upper, passMinLowerChar = lower \<rparr>"
  by (simp add: registered_def settings_def DefineCustomIntVariable_Some)

lemma int_add_sum4:
  assumes "1 \<le> spc" "1 \<le> num" "1 \<le> upper" "1 \<le> lower"
    and "spc + num + upper + lower \<le> INT_MAX"
  shows "int_add (int_add (int_add spc num) upper) lower = spc + num + upper + lower"
proof -
  have b: "spc + num + upper + lower < 2 ^ 31"
    using assms(5) by (simp add: INT_MAX_def)
  have "int_add spc num = spc + num"
    using assms b by (intro int_add_exact) simp_all
  moreover have "int_add (spc + num) upper = spc + num + upper"
    using assms b by (intro int_add_exact) simp_all
  moreover have "int_add (spc + num + upper) lower = spc + num + upper + lower"
    using assms b by (intro int_add_exact) simp_all
  ultimately show ?thesis by simp
qed

lemma define_variables_settings:
  assumes "1 \<le> len" "len \<le> INT_MAX" "1 \<le> spc" "spc \<le> INT_MAX"
    "1 \<le> num" "num \<le> INT_MAX" "1 \<le> upper" "upper \<le> INT_MAX"
    "1 \<le> lower" "lower \<le> INT_MAX"
    and "spc + num + upper + lower \<le> INT_MAX"
  shows "define_variables (settings len spc num upper lower) =
     (if len < spc + num + upper + lower then Inl InconsistentThresholds
      else Inr \<lparr> passMinLength = len, passMinSpcChar = spc, passMinNumChar = num,
                 passMinUpperChar = upper, passMinLowerChar = lower \<rparr>)"
  using assms
  by (simp add: define_variables_def registered_settings int_add_sum4)

lemma DefineCustomIntVariable_bounds:
  "minValue \<le> bootValue \<Longrightarrow> bootValue \<le> maxValue \<Longrightarrow>
     minValue \<le> DefineCustomIntVariable bootValue minValue maxValue configured
     \<and> DefineCustomIntVariable bootValue minValue maxValue configured \<le> maxValue"
  by (simp add: DefineCustomIntVariable_def split: option.splits)

lemma registered_sub_minimums:
  "1 \<le> passMinSpcChar (registered gs) \<and> 1 \<le> passMinNumChar (registered gs)
   \<and> 1 \<le> passMinUpperChar (registered gs) \<and> 1 \<le> passMinLowerChar (registered gs)"
  using DefineCustomIntVariable_bounds [of 1 2 INT_MAX]
  by (simp add: registered_def INT_MAX_def)

text \<open>
  The comparison in \<open>define_variables\<close> adds the four thresholds as C \<^verbatim>\<open>int\<close>s. Two
  thresholds of \<^verbatim>\<open>INT_MAX\<close> make the sum wrap around to a small number, and the settings
  pass the comparison although no password of 8 bytes can meet them.
\<close>

lemma threshold_sum_wraps_around:
  "define_variables (settings 8 2147483647 2147483647 1 1) =
     Inr \<lparr> passMinLength = 8, passMinSpcChar = 2147483647, passMinNumChar = 2147483647,
           passMinUpperChar = 1, passMinLowerChar = 1 \<rparr>"
  by (simp add: define_variables_def registered_def settings_def
      DefineCustomIntVariable_Some INT_MAX_def int_add_def)

section \<open>The claims\<close>

text \<open>
  C1. A plaintext password that passes the length check and does not contain the user name
  gets the verdict of the first failing comparison, in the order digits, special
  characters, uppercase letters, lowercase letters (and, when all four pass, the verdict of
  the dictionary check if the build has one). With the default thresholds and the "C"
  locale, \<^verbatim>\<open>AAAAAAAA\<close> is rejected for too few digits, for every user name it does not
  contain.
\<close>

theorem first_failing_check:
  "(passMinLength cfg \<le> int (length pw) \<and> \<not> sublist user pw \<longrightarrow>
      check_password h cfg user pw PASSWORD_TYPE_PLAINTEXT vt vn =
        (if bucket_count (locale_ctype h) Digit pw < passMinNumChar cfg
           then Reject (TooFewDigits (passMinNumChar cfg))
         else if bucket_count (locale_ctype h) Special pw < passMinSpcChar cfg
           then Reject (TooFewSpecial (passMinSpcChar cfg))
         else if bucket_count (locale_ctype h) Uppercase pw < passMinUpperChar cfg
           then Reject (TooFewUppercase (passMinUpperChar cfg))
         else if bucket_count (locale_ctype h) Lowercase pw < passMinLowerChar cfg
           then Reject (TooFewLowercase (passMinLowerChar cfg))
         else (case FascistCheck h of
                 None \<Rightarrow> Accept
               | Some cracklib \<Rightarrow>
                   if cracklib pw then Reject DictionaryGuessable else Accept)))
   \<and> (locale_ctype h = C_locale \<and> \<not> sublist user ''AAAAAAAA'' \<longrightarrow>
        check_password h default_config user ''AAAAAAAA'' PASSWORD_TYPE_PLAINTEXT vt vn =
          Reject (TooFewDigits 2))"
proof (intro conjI impI)
  assume "passMinLength cfg \<le> int (length pw) \<and> \<not> sublist user pw"
  then show "check_password h cfg user pw PASSWORD_TYPE_PLAINTEXT vt vn =
        (if bucket_count (locale_ctype h) Digit pw < passMinNumChar cfg
           then Reject (TooFewDigits (passMinNumChar cfg))
         else if bucket_count (locale_ctype h) Special pw < passMinSpcChar cfg
           then Reject (TooFewSpecial (passMinSpcChar cfg))
         else if bucket_count (locale_ctype h) Uppercase pw < passMinUpperChar cfg
           then Reject (TooFewUppercase (passMinUpperChar cfg))
         else if bucket_count (locale_ctype h) Lowercase pw < passMinLowerChar cfg
           then Reject (TooFewLowercase (passMinLowerChar cfg))
         else (case FascistCheck h of
                 None \<Rightarrow> Accept
               | Some cracklib \<Rightarrow>
                   if cracklib pw then Reject DictionaryGuessable else Accept))"
    by (simp add: check_password_def strstr_None_iff check_policy_buckets)
next
  assume a: "locale_ctype h = C_locale \<and> \<not> sublist user ''AAAAAAAA''"
  have policy: "check_policy C_locale default_config ''AAAAAAAA'' = Reject (TooFewDigits 2)"
    by (simp add: check_policy_def default_config_def tally0_def count_char_def
        C_locale_def in_range_def)
  have len: "passMinLength default_config = 8"
    by (simp add: default_config_def)
  have none: "strstr ''AAAAAAAA'' user = None"
    using a by (simp add: strstr_None_iff del: strstr.simps)
  show "check_password h default_config user ''AAAAAAAA'' PASSWORD_TYPE_PLAINTEXT vt vn =
          Reject (TooFewDigits 2)"
    unfolding check_password_def Let_def
    using a by (simp add: policy len none del: strstr.simps)
qed

theorem first_failing_check_witness:
  "passMinLength default_config \<le> int (length ''AAAAAAAA'')
   \<and> \<not> sublist ''alice'' ''AAAAAAAA''
   \<and> locale_ctype plain_host = C_locale
   \<and> bucket_count C_locale Digit ''AAAAAAAA'' = 0
   \<and> check_password plain_host default_config ''alice'' ''AAAAAAAA'' PASSWORD_TYPE_PLAINTEXT 0 True
       = Reject (TooFewDigits 2)"
  using first_failing_check
    [where cfg = default_config and pw = "''AAAAAAAA''" and user = "''alice''"
       and h = plain_host and vt = 0 and vn = True]
  by (simp add: default_config_def plain_host_def sublist_Cons_right bucket_count_def
      bucket_of_def C_locale_def in_range_def)

text \<open>
  C2. A plaintext password shorter than \<^verbatim>\<open>passMinLength\<close> is rejected as too short, whatever
  its characters, the user name, the locale and the other thresholds.
\<close>

theorem too_short_rejected:
  "int (length pw) < passMinLength cfg \<Longrightarrow>
     check_password h cfg user pw PASSWORD_TYPE_PLAINTEXT vt vn = Reject TooShort"
  by (simp add: check_password_def)

theorem too_short_rejected_witness:
  "int (length ''short1!'') < passMinLength default_config
   \<and> check_password plain_host default_config ''bob'' ''short1!'' PASSWORD_TYPE_PLAINTEXT 0 True
       = Reject TooShort"
  using too_short_rejected
    [where pw = "''short1!''" and cfg = default_config and h = plain_host
       and user = "''bob''" and vt = 0 and vn = True]
  by (simp add: default_config_def)

text \<open>
  C3. A plaintext password of at least \<^verbatim>\<open>passMinLength\<close> bytes in which the bytes of the
  user name occur contiguously (\<open>ps @ user @ ss\<close>: something before, the user name, something
  after) is rejected for containing the user name, whatever its other characters.
\<close>

theorem contains_username_rejected:
  "passMinLength cfg \<le> int (length (ps @ user @ ss)) \<Longrightarrow>
     check_password h cfg user (ps @ user @ ss) PASSWORD_TYPE_PLAINTEXT vt vn =
       Reject ContainsUsername"
  using strstr_append [of ps user ss] by (simp add: check_password_def del: strstr.simps)

theorem contains_username_rejected_witness:
  "passMinLength default_config \<le> int (length ([] @ ''bob'' @ ''Pass12!@''))
   \<and> check_password plain_host default_config ''bob'' ''bobPass12!@'' PASSWORD_TYPE_PLAINTEXT
        0 True = Reject ContainsUsername"
  using contains_username_rejected
    [where cfg = default_config and ps = "[]" and user = "''bob''" and ss = "''Pass12!@''"
       and h = plain_host and vt = 0 and vn = True]
  by (simp add: default_config_def)

text \<open>
  C4. The loop of \<open>check_policy\<close> counts every byte of the password in exactly one of
  digits, special characters, uppercase letters, lowercase letters and letters of neither
  case (the letters counted by \<^verbatim>\<open>letter_count\<close> but by neither \<^verbatim>\<open>upper_count\<close> nor
  \<^verbatim>\<open>lower_count\<close>): the five counts add up to the length of the password, and each is the
  number of bytes in the bucket of that name.
\<close>

theorem classification_partition:
  "number_count (count_chars ct pw tally0) + spc_char_count (count_chars ct pw tally0)
     + upper_count (count_chars ct pw tally0) + lower_count (count_chars ct pw tally0)
     + (letter_count (count_chars ct pw tally0) - upper_count (count_chars ct pw tally0)
          - lower_count (count_chars ct pw tally0))
     = int (length pw)
   \<and> number_count (count_chars ct pw tally0) = bucket_count ct Digit pw
   \<and> spc_char_count (count_chars ct pw tally0) = bucket_count ct Special pw
   \<and> upper_count (count_chars ct pw tally0) = bucket_count ct Uppercase pw
   \<and> lower_count (count_chars ct pw tally0) = bucket_count ct Lowercase pw
   \<and> letter_count (count_chars ct pw tally0) - upper_count (count_chars ct pw tally0)
        - lower_count (count_chars ct pw tally0) = bucket_count ct Caseless pw"
  using bucket_counts_total [of ct pw] by (simp add: tally_simps tally0_def)

text \<open>
  C5. The claim says that settings whose four sub-minimums add up to more than the minimum
  length are refused when the module is loaded, and that all others are accepted. The
  second half fails for a sub-minimum outside \<open>1..INT_MAX\<close>: the value is not assigned, the
  threshold keeps its default 2, and the sum that is compared is not the configured one.
  With minimum length 3 and sub-minimums 0, 1, 1, 1 the configured sum is 3, yet the load
  fails.
\<close>

theorem zero_sub_minimum_breaks_sum_rule_counterexample:
  "(0::int) + 1 + 1 + 1 \<le> 3
   \<and> define_variables (settings 3 0 1 1 1) = Inl InconsistentThresholds"
  by (simp add: define_variables_def registered_def settings_def
      DefineCustomIntVariable_Some INT_MAX_def int_add_def)

text \<open>
  C5, amended. When each of the five settings lies in \<open>1..INT_MAX\<close>: if the four sub-minimums
  add up to at most \<^verbatim>\<open>INT_MAX\<close> and to more than the minimum length, \<open>define_variables\<close>
  raises the configuration error and \<^verbatim>\<open>_PG_init\<close> ends with it, before the hook is installed;
  if they add up to at most the minimum length, the settings are accepted as configured and
  the hook is installed. Minimum length 5 with sub-minimums 2, 2, 2, 2 is refused.
\<close>

theorem thresholds_checked_at_load:
  assumes "1 \<le> len" "len \<le> INT_MAX" "1 \<le> spc" "spc \<le> INT_MAX"
    "1 \<le> num" "num \<le> INT_MAX" "1 \<le> upper" "upper \<le> INT_MAX"
    "1 \<le> lower" "lower \<le> INT_MAX"
  shows
    "(spc + num + upper + lower \<le> INT_MAX \<and> len < spc + num + upper + lower \<longrightarrow>
        define_variables (settings len spc num upper lower) = Inl InconsistentThresholds
        \<and> PG_init (settings len spc num upper lower) fresh_backend
            = Inl InconsistentThresholds)
     \<and> (spc + num + upper + lower \<le> len \<longrightarrow>
        define_variables (settings len spc num upper lower) =
          Inr \<lparr> passMinLength = len, passMinSpcChar = spc, passMinNumChar = num,
                passMinUpperChar = upper, passMinLowerChar = lower \<rparr>
        \<and> PG_init (settings len spc num upper lower) fresh_backend =
            Inr \<lparr> inited = True, hook_installed = True,
                  thresholds = \<lparr> passMinLength = len, passMinSpcChar = spc,
                    passMinNumChar = num, passMinUpperChar = upper,
                    passMinLowerChar = lower \<rparr> \<rparr>)
     \<and> define_variables (settings 5 2 2 2 2) = Inl InconsistentThresholds"
proof (intro conjI impI)
  assume a: "spc + num + upper + lower \<le> INT_MAX \<and> len < spc + num + upper + lower"
  then show dv: "define_variables (settings len spc num upper lower) = Inl InconsistentThresholds"
    using assms by (simp add: define_variables_settings)
  then show "PG_init (settings len spc num upper lower) fresh_backend
            = Inl InconsistentThresholds"
    by (simp add: PG_init_def fresh_backend_def)
next
  assume a: "spc + num + upper + lower \<le> len"
  then have "spc + num + upper + lower \<le> INT_MAX"
    using assms(2) by simp
  then show dv: "define_variables (settings len spc num upper lower) =
          Inr \<lparr> passMinLength = len, passMinSpcChar = spc, passMinNumChar = num,
                passMinUpperChar = upper, passMinLowerChar = lower \<rparr>"
    using assms a by (simp add: define_variables_settings)
  then show "PG_init (settings len spc num upper lower) fresh_backend =
            Inr \<lparr> inited = True, hook_installed = True,
                  thresholds = \<lparr> passMinLength = len, passMinSpcChar = spc,
                    passMinNumChar = num, passMinUpperChar = upper,
                    passMinLowerChar = lower \<rparr> \<rparr>"
    by (simp add: PG_init_def fresh_backend_def)
next
  show "define_variables (settings 5 2 2 2 2) = Inl InconsistentThresholds"
    by (simp add: define_variables_def registered_def settings_def
        DefineCustomIntVariable_Some INT_MAX_def int_add_def)
qed

theorem thresholds_checked_at_load_witness:
  "(1::int) \<le> 5 \<and> (5::int) \<le> INT_MAX \<and> (1::int) \<le> 2 \<and> (2::int) \<le> INT_MAX
   \<and> (2::int) + 2 + 2 + 2 \<le> INT_MAX \<and> (5::int) < 2 + 2 + 2 + 2
   \<and> PG_init (settings 5 2 2 2 2) fresh_backend = Inl InconsistentThresholds
   \<and> (1::int) \<le> 8 \<and> (8::int) \<le> INT_MAX \<and> (2::int) + 2 + 2 + 2 \<le> 8
   \<and> PG_init (settings 8 2 2 2 2) fresh_backend =
        Inr \<lparr> inited = True, hook_installed = True, thresholds = default_config \<rparr>"
  using thresholds_checked_at_load [where len = 5 and spc = 2 and num = 2 and upper = 2 and lower = 2]
    thresholds_checked_at_load [where len = 8 and spc = 2 and num = 2 and upper = 2 and lower = 2]
  by (simp add: INT_MAX_def default_config_def)

text \<open>
  C6. The claim says that each sub-minimum may be any integer from 0 on. The four variables
  are registered with the range \<open>1..INT_MAX\<close>: a configured 0 is not assigned, and the
  threshold stays at its default 2.
\<close>

theorem zero_sub_minimum_refused_counterexample:
  "DefineCustomIntVariable 2 1 INT_MAX (Some 0) = 2
   \<and> define_variables (settings 8 0 2 2 2) = Inr default_config"
  by (simp add: define_variables_def registered_def settings_def default_config_def
      DefineCustomIntVariable_Some INT_MAX_def int_add_def)

text \<open>
  C6, amended. Each of the four sub-minimums takes a configured value from 1 to \<^verbatim>\<open>INT_MAX\<close>
  and keeps its default 2 for any other configured value, so that in every configuration
  the module loads all four sub-minimums are at least 1; the sub-minimums 1, 1, 1, 1 with
  minimum length 8 are accepted.
\<close>

theorem sub_minimum_range:
  "(1 \<le> v \<and> v \<le> INT_MAX \<longrightarrow>
      passMinSpcChar (registered (gs\<lparr>min_special_chars := Some v\<rparr>)) = v
      \<and> passMinNumChar (registered (gs\<lparr>min_numbers := Some v\<rparr>)) = v
      \<and> passMinUpperChar (registered (gs\<lparr>min_uppercase_letter := Some v\<rparr>)) = v
      \<and> passMinLowerChar (registered (gs\<lparr>min_lowercase_letter := Some v\<rparr>)) = v)
   \<and> (v < 1 \<or> INT_MAX < v \<longrightarrow>
      passMinSpcChar (registered (gs\<lparr>min_special_chars := Some v\<rparr>)) = 2
      \<and> passMinNumChar (registered (gs\<lparr>min_numbers := Some v\<rparr>)) = 2
      \<and> passMinUpperChar (registered (gs\<lparr>min_uppercase_letter := Some v\<rparr>)) = 2
      \<and> passMinLowerChar (registered (gs\<lparr>min_lowercase_letter := Some v\<rparr>)) = 2)
   \<and> (define_variables gs = Inr cfg \<longrightarrow>
      1 \<le> passMinSpcChar cfg \<and> 1 \<le> passMinNumChar cfg
      \<and> 1 \<le> passMinUpperChar cfg \<and> 1 \<le> passMinLowerChar cfg)
   \<and> define_variables (settings 8 1 1 1 1) =
       Inr \<lparr> passMinLength = 8, passMinSpcChar = 1, passMinNumChar = 1,
             passMinUpperChar = 1, passMinLowerChar = 1 \<rparr>"
proof (intro conjI impI)
  assume "define_variables gs = Inr cfg"
  then have cfg: "cfg = registered gs"
    by (simp add: define_variables_def Let_def split: if_splits)
  show "1 \<le> passMinSpcChar cfg" "1 \<le> passMinNumChar cfg"
    "1 \<le> passMinUpperChar cfg" "1 \<le> passMinLowerChar cfg"
    using registered_sub_minimums [of gs] by (simp_all add: cfg)
next
  show "define_variables (settings 8 1 1 1 1) =
       Inr \<lparr> passMinLength = 8, passMinSpcChar = 1, passMinNumChar = 1,
             passMinUpperChar = 1, passMinLowerChar = 1 \<rparr>"
    by (simp add: define_variables_def registered_def settings_def
        DefineCustomIntVariable_Some INT_MAX_def int_add_def)
qed (auto simp: registered_def DefineCustomIntVariable_Some)

theorem sub_minimum_range_witness:
  "(1::int) \<le> 1 \<and> (1::int) \<le> INT_MAX
   \<and> passMinSpcChar (registered ((settings 8 2 2 2 2)\<lparr>min_special_chars := Some 1\<rparr>)) = 1
   \<and> (0::int) < 1
   \<and> passMinSpcChar (registered ((settings 8 2 2 2 2)\<lparr>min_special_chars := Some 0\<rparr>)) = 2
   \<and> define_variables (settings 8 1 2 2 2) =
        Inr \<lparr> passMinLength = 8, passMinSpcChar = 1, passMinNumChar = 2,
              passMinUpperChar = 2, passMinLowerChar = 2 \<rparr>
   \<and> 1 \<le> passMinSpcChar \<lparr> passMinLength = 8, passMinSpcChar = 1, passMinNumChar = 2,
              passMinUpperChar = 2, passMinLowerChar = 2 \<rparr>"
  using sub_minimum_range [where v = 1 and gs = "settings 8 2 2 2 2"]
    sub_minimum_range [where v = 0 and gs = "settings 8 2 2 2 2"]
    sub_minimum_range [where gs = "settings 8 1 2 2 2"
      and cfg = "\<lparr> passMinLength = 8, passMinSpcChar = 1, passMinNumChar = 2,
              passMinUpperChar = 2, passMinLowerChar = 2 \<rparr>"]
  by (simp add: define_variables_def registered_def settings_def
        DefineCustomIntVariable_Some INT_MAX_def int_add_def)

text \<open>
  C7. With the default thresholds, the "C" locale and no dictionary check, the user
  \<^verbatim>\<open>alice\<close> and the plaintext password \<^verbatim>\<open>Ab12!@Cd\<close> pass every check.
\<close>

theorem scenario_accept:
  "check_password
     \<lparr> locale_ctype = C_locale, plain_crypt_verify = verify, FascistCheck = None \<rparr>
     default_config ''alice'' ''Ab12!@Cd'' PASSWORD_TYPE_PLAINTEXT vt vn = Accept"
  by (simp add: check_password_def default_config_def check_policy_def
      tally0_def count_char_def C_locale_def in_range_def)

text \<open>
  C8. For a password that is not plaintext the verdict is decided by the server's
  verification of the user name against the stored password alone: rejection if it
  succeeds, acceptance otherwise. The thresholds, the locale and the dictionary check have
  no influence.
\<close>

theorem encrypted_only_verifies_username:
  "password_type \<noteq> PASSWORD_TYPE_PLAINTEXT \<Longrightarrow>
     check_password h cfg user shadow_pass password_type vt vn =
       (if plain_crypt_verify h user shadow_pass user
        then Reject EncryptedPasswordMatchesUsername else Accept)
     \<and> check_password (h\<lparr>locale_ctype := ct, FascistCheck := dict\<rparr>) cfg' user shadow_pass
          password_type vt vn
        = check_password h cfg user shadow_pass password_type vt vn"
  by (simp add: check_password_def)

theorem encrypted_only_verifies_username_witness:
  "PASSWORD_TYPE_MD5 \<noteq> PASSWORD_TYPE_PLAINTEXT
   \<and> check_password plain_host default_config ''bob'' ''bob'' PASSWORD_TYPE_MD5 0 True
       = Reject EncryptedPasswordMatchesUsername
   \<and> check_password plain_host default_config ''bob'' ''x'' PASSWORD_TYPE_MD5 0 True = Accept"
  using encrypted_only_verifies_username
     [where password_type = PASSWORD_TYPE_MD5 and h = plain_host and cfg = default_config
        and user = "''bob''" and shadow_pass = "''bob''" and vt = 0 and vn = True
        and ct = C_locale and dict = None and cfg' = default_config]
    encrypted_only_verifies_username
     [where password_type = PASSWORD_TYPE_MD5 and h = plain_host and cfg = default_config
        and user = "''bob''" and shadow_pass = "''x''" and vt = 0 and vn = True
        and ct = C_locale and dict = None and cfg' = default_config]
  by (simp add: plain_host_def)

text \<open>
  C9. For the empty user name, a plaintext password of at least \<^verbatim>\<open>passMinLength\<close> bytes is
  rejected for containing the user name, and no plaintext password is accepted.
\<close>

theorem empty_username_never_accepted:
  "(passMinLength cfg \<le> int (length pw) \<longrightarrow>
      check_password h cfg [] pw PASSWORD_TYPE_PLAINTEXT vt vn = Reject ContainsUsername)
   \<and> check_password h cfg [] pw PASSWORD_TYPE_PLAINTEXT vt vn \<noteq> Accept"
proof -
  have "strstr pw [] \<noteq> None"
    by (simp add: strstr_None_iff del: strstr.simps)
  then show ?thesis
    by (simp add: check_password_def del: strstr.simps)
qed

theorem empty_username_never_accepted_witness:
  "passMinLength default_config \<le> int (length ''Ab12!@Cd'')
   \<and> check_password plain_host default_config [] ''Ab12!@Cd'' PASSWORD_TYPE_PLAINTEXT 0 True
       = Reject ContainsUsername"
  using empty_username_never_accepted
    [where cfg = default_config and pw = "''Ab12!@Cd''" and h = plain_host
       and vt = 0 and vn = True]
  by (simp add: default_config_def)

text \<open>
  C10. The verdict of \<open>check_password\<close> is the same for any two values of the expiration
  time and of its null flag.
\<close>

theorem validuntil_ignored:
  "check_password h cfg user shadow_pass password_type validuntil_time validuntil_null
     = check_password h cfg user shadow_pass password_type validuntil_time' validuntil_null'"
  by (simp add: check_password_def)

end
